theory Spec2Isabelle
  imports Main "HOL-Library.Word"
begin

unbundle bit_operations_syntax

section \<open>Machine data\<close>

text \<open>
  The engine runs on a 64-bit little-endian target. Fixed-width integers are words,
  pointers are 64-bit addresses, and memory is a total map from addresses to bytes.
\<close>

type_synonym uint8 = "8 word"
type_synonym uint16 = "16 word"
type_synonym uint32 = "32 word"
type_synonym uint64 = "64 word"
type_synonym address = "64 word"
type_synonym memory = "address \<Rightarrow> uint8"

text \<open>\<open>*(uint16 *)p\<close>: two bytes, least significant first.\<close>

definition load16 :: "memory \<Rightarrow> address \<Rightarrow> uint16" where
  "load16 m a = ucast (m a) OR push_bit 8 (ucast (m (a + 1)))"

text \<open>\<open>*(long long *)p\<close> and \<open>table[i]\<close> on 8-byte entries: eight bytes, least significant first.\<close>

definition load64 :: "memory \<Rightarrow> address \<Rightarrow> uint64" where
  "load64 m a =
     foldr (\<lambda>i acc. ucast (m (a + of_nat i)) OR push_bit 8 acc) [0, 1, 2, 3, 4, 5, 6, 7] 0"

text \<open>\<open>fread\<close> into a buffer: consecutive bytes from the destination address on.\<close>

fun store_bytes :: "memory \<Rightarrow> address \<Rightarrow> uint8 list \<Rightarrow> memory" where
  "store_bytes m a [] = m"
| "store_bytes m a (b # bs) = store_bytes (m(a := b)) (a + 1) bs"

section \<open>Handler resolution\<close>

text \<open>
  The offset computation of \<open>Script::FindHandler\<close>:
  \<open>(uint64((opcode & 0x7fffu) * 1374389535llu) >> 33) & 0x3ffffff0\<close>.
  The 16-bit opcode is masked as a 32-bit unsigned value, widened to 64 bits for the
  multiplication, shifted right logically and masked.
\<close>

definition handlerOffset :: "uint16 \<Rightarrow> uint64" where
  "handlerOffset opcode =
     drop_bit 33 ((ucast ((ucast opcode :: uint32) AND 0x7fff) :: uint64) * 1374389535)
       AND 0x3ffffff0"

text \<open>
  The same offset in the words of the specification, on natural numbers: a 64-bit unsigned
  multiply, an unsigned right shift by 33 and a bitwise AND.
\<close>

definition spec_offset :: "nat \<Rightarrow> nat" where
  "spec_offset opcode =
     (((opcode AND 0x7fff) * 1374389535) mod 2 ^ 64 div 2 ^ 33) AND 0x3ffffff0"

text \<open>
  \<open>Script::GetAlternateThis\<close>. The address of the field \<open>nextScript\<close> is the object's
  address plus the field's offset in the class layout, which the class declaration fixes;
  the declaration is not part of this file's sources, so the offset is a parameter.
  \<open>>>\<close> on \<open>long long\<close> is the arithmetic shift.
\<close>

definition GetAlternateThis :: "address \<Rightarrow> address \<Rightarrow> memory \<Rightarrow> address \<Rightarrow> uint64 \<Rightarrow> address" where
  "GetAlternateThis nextScriptOffs handlerTable m this handlerOffs =
     (this + nextScriptOffs) + signed_drop_bit 1 (load64 m (handlerTable + handlerOffs + 8))"

text \<open>
  \<open>Script::FindHandler\<close>. The result pairs the handler routine's address with the value
  of the reference parameter \<open>thisPtr\<close> after the call. \<open>defaultHandler\<close> and
  \<open>handlerTable\<close> are the two slid host addresses.
\<close>

definition FindHandler ::
  "address \<Rightarrow> address \<Rightarrow> address \<Rightarrow> memory \<Rightarrow> uint16 \<Rightarrow> address \<Rightarrow> address \<times> address" where
  "FindHandler defaultHandler handlerTable nextScriptOffs m opcode thisPtr =
     (if opcode \<ge> 0xa8c then (defaultHandler, thisPtr)
      else
        let handlerOffs = handlerOffset opcode;
            thisPtr' = GetAlternateThis nextScriptOffs handlerTable m thisPtr handlerOffs
        in (load64 m (handlerTable + 8 * (handlerOffs div 8)), thisPtr'))"



section \<open>The script unit\<close>

text \<open>
  The fields of \<open>Script\<close> that the implementation file touches. The class declaration
  is not part of this file's sources; the two flags are booleans, as the data model of the
  specification has them, and \<open>name\<close> holds the characters of the fixed-capacity
  buffer up to its terminator.
\<close>

record Script =
  nextScript :: address
  name :: string
  startPointer :: address
  currentPointer :: address
  activationTime :: uint32
  active :: bool
  invertReturn :: bool

text \<open>
  What a member function works on: the unit itself, the byte memory, the set of live array
  allocations of the free store, and the function-local static \<open>loadNumber\<close> of the
  loading constructor.
\<close>

record machine =
  script :: Script
  mem :: memory
  heap :: "address set"
  loadNumber :: uint32

text \<open>
  Calls that leave the unit are recorded in the order they happen: log lines, free-store
  traffic, the read of the instruction stream, the query of the override layer, the call
  of a native interceptor (opcode, context), the query of the handler resolver, and the
  call of a host routine (routine address, context, opcode).
\<close>

datatype event =
    Log string
  | LogError string
  | NewArray nat address
  | DeleteArray address
  | ReadOpcode address
  | OverrideLookup uint16
  | InterceptorCall uint16 address
  | ResolverCall uint16
  | HostCall address address uint16

datatype fault = NullStream | InvalidDelete

text \<open>
  The host process as the unit sees it: \<open>Mobile::GetHandler\<close> (the override layer; an
  interceptor takes the unit's address and may change the machine), the two slid addresses
  \<open>defaultOpcodeHandler\<close> and \<open>opcodeHandlerTable\<close>, the layout offset of
  \<open>nextScript\<close>, and the effect of calling the host routine at a given address with a
  context pointer and an opcode.
\<close>

record host =
  Mobile_GetHandler :: "uint16 \<Rightarrow> (address \<Rightarrow> machine \<Rightarrow> machine) option"
  defaultOpcodeHandler :: address
  opcodeHandlerTable :: address
  nextScriptOffset :: address
  call_routine :: "address \<Rightarrow> address \<Rightarrow> uint16 \<Rightarrow> machine \<Rightarrow> uint8 \<times> machine"

text \<open>
  The storage and the allocator as the loading constructor sees them: \<open>st_size\<close> after
  \<open>stat\<close> on a zero-initialised buffer, \<open>fopen\<close> in mode \<open>rb\<close> (the file's bytes, or
  \<open>None\<close> for a null stream), and \<open>new uint8[size]\<close> given the live allocations.
\<close>

record runtime =
  st_size :: "string \<Rightarrow> nat"
  fopen_rb :: "string \<Rightarrow> uint8 list option"
  new_array :: "address set \<Rightarrow> nat \<Rightarrow> address"

subsection \<open>Stepping\<close>

text \<open>
  Lines 64 to 70 of \<open>Script::RunNextInstruction\<close>: read the mask at the cursor, advance
  the cursor by two bytes, split the mask.
\<close>

definition fetch :: "machine \<Rightarrow> uint16 \<times> machine" where
  "fetch m =
     (let opcodeMask = load16 (mem m) (currentPointer (script m));
          m1 = m\<lparr>script := (script m)\<lparr>currentPointer := currentPointer (script m) + 2\<rparr>\<rparr>;
          opcode = opcodeMask AND 0x7fff;
          m2 = m1\<lparr>script := (script m1)\<lparr>invertReturn := (opcodeMask AND 0x8000 \<noteq> 0)\<rparr>\<rparr>
      in (opcode, m2))"

text \<open>
  Lines 72 to 95: the override layer first, then the terminate opcode, then the host's
  handler found by \<open>FindHandler\<close>.
\<close>

definition dispatch :: "host \<Rightarrow> address \<Rightarrow> uint16 \<Rightarrow> machine \<Rightarrow> uint8 \<times> machine \<times> event list" where
  "dispatch h this opcode m =
     (case Mobile_GetHandler h opcode of
        Some customHandler \<Rightarrow>
          (0, customHandler this m, [OverrideLookup opcode, InterceptorCall opcode this])
      | None \<Rightarrow>
          if opcode = 0x4e
          then (1, m\<lparr>script := (script m)\<lparr>active := False\<rparr>\<rparr>, [OverrideLookup opcode])
          else
            let (handler, scriptToPass) =
                  FindHandler (defaultOpcodeHandler h) (opcodeHandlerTable h) (nextScriptOffset h)
                    (mem m) opcode this;
                (r, m') = call_routine h handler scriptToPass opcode m
            in (r, m', [OverrideLookup opcode, ResolverCall opcode,
                        HostCall handler scriptToPass opcode]))"

definition RunNextInstruction :: "host \<Rightarrow> address \<Rightarrow> machine \<Rightarrow> uint8 \<times> machine \<times> event list" where
  "RunNextInstruction h this m =
     (if \<not> active (script m) then (1, m, [])
      else
        let (opcode, m2) = fetch m;
            (r, m', evs) = dispatch h this opcode m2
        in (r, m', ReadOpcode (currentPointer (script m)) # evs))"

subsection \<open>Release\<close>

text \<open>
  The array delete expression: on a null pointer it does nothing; on a live allocation it
  releases it; on anything else (a second release, a pointer into a buffer) its behaviour is
  undefined, which the model reports as a fault.
\<close>

definition delete_array :: "address \<Rightarrow> address set \<Rightarrow> fault + (address set \<times> event list)" where
  "delete_array p live =
     (if p = 0 then Inr (live, [])
      else if p \<in> live then Inr (live - {p}, [DeleteArray p])
      else Inl InvalidDelete)"

definition Unload :: "machine \<Rightarrow> fault + (machine \<times> event list)" where
  "Unload m =
     (case delete_array (startPointer (script m)) (heap m) of
        Inl e \<Rightarrow> Inl e
      | Inr (live, evs) \<Rightarrow>
          Inr (m\<lparr>heap := live, script := (script m)\<lparr>startPointer := 0\<rparr>\<rparr>, evs))"

text \<open>\<open>Script::~Script\<close> calls \<open>Unload\<close> and nothing else.\<close>

definition Script_dtor :: "machine \<Rightarrow> fault + (machine \<times> event list)" where
  "Script_dtor m = Unload m"

subsection \<open>Move transfer\<close>

text \<open>The object whose every byte is zero: null pointers, false flags, an empty name.\<close>

definition zeroed :: Script where
  "zeroed = \<lparr>nextScript = 0, name = [], startPointer = 0, currentPointer = 0,
             activationTime = 0, active = False, invertReturn = False\<rparr>"

text \<open>
  \<open>Script::Script(Script &&)\<close>: \<open>memcpy\<close> of the whole source into the new unit, then
  \<open>fill_n\<close> of zero bytes over the whole source. The result is the new unit and the
  source as the constructor leaves it.
\<close>

definition Script_move :: "Script \<Rightarrow> Script \<times> Script" where
  "Script_move source = (source, zeroed)"

subsection \<open>Loading\<close>

text \<open>\<open>std::to_string\<close> on an unsigned value: its decimal digits.\<close>

fun to_string :: "nat \<Rightarrow> string" where
  "to_string n =
     (if n < 10 then [''0123456789'' ! n]
      else to_string (n div 10) @ [''0123456789'' ! (n mod 10)])"

declare to_string.simps [simp del]

text \<open>
  \<open>Script::Script(const std::string &)\<close>. The constructor body runs on the object as
  member initialisation left it (the \<open>script\<close> of the machine it is given). When
  \<open>fopen\<close> returned a null stream the body logs the error and goes on: it still sets
  \<open>activationTime\<close>, still allocates, and then hands the null stream to \<open>fread\<close>.
  That call has no defined behaviour; the model stops there with the fault, the machine and
  the events up to that point. \<open>fread\<close> on an open stream copies at most \<open>size\<close> bytes.
\<close>

definition Script_ctor ::
  "runtime \<Rightarrow> string \<Rightarrow> machine \<Rightarrow> (fault \<times> machine \<times> event list) + (machine \<times> event list)" where
  "Script_ctor rt path m =
     (let size = st_size rt path;
          evs1 = [Log (''Loading '' @ path)];
          scriptFile = fopen_rb rt path;
          evs2 = (if scriptFile = None
                  then evs1 @ [LogError (''Failed to load script '' @ path @ '' (unable to open file)'')]
                  else evs1);
          m1 = m\<lparr>script := (script m)\<lparr>activationTime := 0\<rparr>\<rparr>;
          data = new_array rt (heap m1) size;
          m2 = m1\<lparr>heap := insert data (heap m1)\<rparr>;
          evs3 = evs2 @ [NewArray size data]
      in case scriptFile of
           None \<Rightarrow> Inl (NullStream, m2, evs3)
         | Some bytes \<Rightarrow>
             let m3 = m2\<lparr>mem := store_bytes (mem m2) data (take size bytes)\<rparr>;
                 m4 = m3\<lparr>script := (script m3)\<lparr>startPointer := data, currentPointer := data\<rparr>\<rparr>;
                 tempName = ''magic'' @ to_string (unat (loadNumber m4));
                 m5 = m4\<lparr>loadNumber := loadNumber m4 + 1\<rparr>
             in Inr (m5\<lparr>script := (script m5)\<lparr>name := tempName\<rparr>\<rparr>, evs3))"

section \<open>Concrete inputs\<close>

text \<open>
  A resolution table fragment: the entry for opcodes 0x100 to 0x163 at offset 32 of a table
  at 0x1000 holds the routine address 0x44 and the adjustment word \<open>-2\<close>.
\<close>

definition example_table_memory :: memory where
  "example_table_memory =
     (\<lambda>a. if a = 0x1020 then 0x44 else if a = 0x1028 then 0xfe
          else if 0x1029 \<le> a \<and> a \<le> 0x102f then 0xff else 0)"

text \<open>
  A loaded unit: a 6-byte buffer at 0x5000 holding the terminate opcode 0x4e, then the mask
  0x8012. The same memory holds the first entry of a resolution table at 0x1000: routine
  address 0x40, adjustment word 16.
\<close>

definition example_stream :: memory where
  "example_stream =
     (\<lambda>a. if a = 0x5000 then 0x4e else if a = 0x5002 then 0x12
          else if a = 0x5003 then 0x80 else if a = 0x1000 then 0x40
          else if a = 0x1008 then 0x10 else 0)"

definition example_unit :: Script where
  "example_unit = \<lparr>nextScript = 0, name = ''magic0'', startPointer = 0x5000,
     currentPointer = 0x5000, activationTime = 0, active = True, invertReturn = False\<rparr>"

definition example_machine :: machine where
  "example_machine = \<lparr>script = example_unit, mem = example_stream, heap = {0x5000},
     loadNumber = 1\<rparr>"

definition example_inverted :: machine where
  "example_inverted = example_machine\<lparr>script := example_unit\<lparr>currentPointer := 0x5002\<rparr>\<rparr>"

text \<open>
  Two hosts: one with an empty override layer, one with an interceptor registered for the
  terminate opcode that leaves the machine as it is. Their routines all return 0.
\<close>

definition no_interceptor :: "uint16 \<Rightarrow> (address \<Rightarrow> machine \<Rightarrow> machine) option" where
  "no_interceptor opcode = None"

definition keep_machine :: "address \<Rightarrow> machine \<Rightarrow> machine" where
  "keep_machine this m = m"

definition terminate_interceptor :: "uint16 \<Rightarrow> (address \<Rightarrow> machine \<Rightarrow> machine) option" where
  "terminate_interceptor opcode = (if opcode = 0x4e then Some keep_machine else None)"

definition continue_routine :: "address \<Rightarrow> address \<Rightarrow> uint16 \<Rightarrow> machine \<Rightarrow> uint8 \<times> machine" where
  "continue_routine routine context opcode m = (0, m)"

definition plain_host :: host where
  "plain_host = \<lparr>Mobile_GetHandler = no_interceptor, defaultOpcodeHandler = 0x7000,
     opcodeHandlerTable = 0x1000, nextScriptOffset = 0, call_routine = continue_routine\<rparr>"

definition intercepting_host :: host where
  "intercepting_host = plain_host\<lparr>Mobile_GetHandler := terminate_interceptor\<rparr>"

text \<open>
  A third host, whose interceptor for the terminate opcode clears the unit's \<open>active\<close>
  flag itself.
\<close>

definition clear_active :: "address \<Rightarrow> machine \<Rightarrow> machine" where
  "clear_active this m = m\<lparr>script := (script m)\<lparr>active := False\<rparr>\<rparr>"

definition clearing_interceptor :: "uint16 \<Rightarrow> (address \<Rightarrow> machine \<Rightarrow> machine) option" where
  "clearing_interceptor opcode = (if opcode = 0x4e then Some clear_active else None)"

definition clearing_host :: host where
  "clearing_host = plain_host\<lparr>Mobile_GetHandler := clearing_interceptor\<rparr>"

text \<open>
  A storage with a file that opens and one that has a size but does not open, an allocator
  that answers 0x6000, and a machine with nothing loaded.
\<close>

definition example_size :: "string \<Rightarrow> nat" where
  "example_size path = (if path = ''locked.csi'' \<or> path = ''good.csi'' then 6 else 0)"

definition example_open :: "string \<Rightarrow> uint8 list option" where
  "example_open path = (if path = ''good.csi'' then Some [0x4e, 0, 0, 0, 0, 0] else None)"

definition example_new :: "address set \<Rightarrow> nat \<Rightarrow> address" where
  "example_new live n = 0x6000"

definition example_runtime :: runtime where
  "example_runtime = \<lparr>st_size = example_size, fopen_rb = example_open, new_array = example_new\<rparr>"

definition blank_memory :: memory where
  "blank_memory a = 0"

definition blank_machine :: machine where
  "blank_machine = \<lparr>script = zeroed, mem = blank_memory, heap = {}, loadNumber = 0\<rparr>"

lemmas example_defs = example_machine_def example_stream_def example_unit_def plain_host_def
  intercepting_host_def no_interceptor_def terminate_interceptor_def keep_machine_def
  continue_routine_def example_inverted_def

section \<open>Resolution above the table range\<close>

text \<open>
  C1. For every opcode at or above 0xa8c, \<open>FindHandler\<close> returns the host's default
  handler and the context pointer it was given, whatever the table and the memory hold.
\<close>

theorem FindHandler_default:
  assumes "opcode \<ge> 0xa8c"
  shows "FindHandler defaultHandler handlerTable nextScriptOffs m opcode thisPtr
           = (defaultHandler, thisPtr)"
  using assms by (simp add: FindHandler_def)

theorem FindHandler_default_witness:
  "(0xa8c :: uint16) \<ge> 0xa8c \<and>
   FindHandler 0x100007000 0x100008000 0 (\<lambda>a. 0xff) 0xa8c 0x2000 = (0x100007000, 0x2000)"
  using FindHandler_default [of "0xa8c" "0x100007000" "0x100008000" 0 "\<lambda>a. 0xff" "0x2000"]
  by simp

section \<open>The table offset\<close>

text \<open>
  The multiplier is the rounded-up reciprocal of 100 scaled by \<open>2 ^ 37\<close>, so the offset is
  sixteen times the opcode's hundreds group.
\<close>

lemma reciprocal_100: "x < 2 ^ 15 \<Longrightarrow> (x * 1374389535) div 2 ^ 37 = x div (100::nat)"
proof -
  assume a: "x < 2 ^ 15"
  define q where "q = x div 100"
  define r where "r = x mod 100"
  have x: "x = 100 * q + r" and r: "r < 100" by (simp_all add: q_def r_def)
  have q: "q < 2 ^ 15" using a x by simp
  have e: "x * 1374389535 = q * 2 ^ 37 + (28 * q + r * 1374389535)"
    by (simp add: x algebra_simps)
  have "r * 1374389535 \<le> 99 * 1374389535" using r by simp
  then have b: "28 * q + r * 1374389535 < 2 ^ 37" using q by simp
  show ?thesis unfolding e using b by (simp add: q_def)
qed

lemma offset_mask_eq: "(0x3ffffff0::nat) = push_bit 4 (mask 26)"
  by (simp add: push_bit_eq_mult mask_eq_exp_minus_1)

lemma and_offset_mask: "y < 2 ^ 30 \<Longrightarrow> y AND (0x3ffffff0::nat) = 16 * (y div 16)"
proof -
  assume y: "y < 2 ^ 30"
  have "y AND push_bit 4 (mask 26) = push_bit 4 (drop_bit 4 y)"
  proof (rule bit_eqI)
    fix n
    have nb: "n < 30" if "bit y n"
    proof (rule ccontr)
      assume "\<not> n < 30"
      then have "y < 2 ^ n" using y
        by (meson less_le_trans not_less one_le_numeral power_increasing)
      then show False using that by (simp add: bit_iff_odd)
    qed
    show "bit (y AND push_bit 4 (mask 26)) n = bit (push_bit 4 (drop_bit 4 y)) n"
    proof (cases "bit y n")
      case True
      then have "n < 30" by (rule nb)
      then have "4 \<le> n \<Longrightarrow> n - 4 < 26" by arith
      then show ?thesis by (auto simp add: bit_simps)
    next
      case False
      then show ?thesis by (auto simp add: bit_simps)
    qed
  qed
  then show ?thesis by (simp add: offset_mask_eq push_bit_eq_mult drop_bit_eq_div)
qed

lemma handlerOffset_refines_spec: "unat (handlerOffset opcode) = spec_offset (unat opcode)"
proof -
  have "unat opcode < 2 ^ 16" using unsigned_less [of opcode] by simp
  then have "unat opcode < 2 ^ 32" by simp
  then have t: "take_bit 32 (unat opcode) = unat opcode" by (simp add: take_bit_nat_eq_self)
  show ?thesis
    unfolding handlerOffset_def spec_offset_def
    by (simp add: unsigned_and_eq unat_drop_bit_eq unat_word_ariths unsigned_ucast_eq
      unsigned_take_bit_eq t drop_bit_eq_div)
qed

lemma and_opcode_mask: "x < 2 ^ 15 \<Longrightarrow> x AND (0x7fff::nat) = x"
proof -
  assume "x < 2 ^ 15"
  then have "take_bit 15 x = x" by (simp add: take_bit_nat_eq_self)
  moreover have "(0x7fff::nat) = mask 15" by (simp add: mask_eq_exp_minus_1)
  ultimately show ?thesis by (simp add: take_bit_eq_mask)
qed

lemma spec_offset_eq: "x < 2 ^ 15 \<Longrightarrow> spec_offset x = 16 * (x div 100)"
proof -
  assume x: "x < 2 ^ 15"
  have "x * 1374389535 \<le> 2 ^ 15 * 1374389535" using x by simp
  then have lt: "x * 1374389535 < 2 ^ 46" by simp
  then have m: "x * 1374389535 mod 2 ^ 64 = x * 1374389535" by simp
  have "x * 1374389535 div 2 ^ 33 < 2 ^ 13" using lt
    by (simp add: less_mult_imp_div_less)
  then have "x * 1374389535 div 2 ^ 33 < 2 ^ 30" by simp
  then have "(x * 1374389535 div 2 ^ 33) AND (0x3ffffff0::nat) = 16 * (x * 1374389535 div 2 ^ 33 div 16)"
    by (rule and_offset_mask)
  also have "x * 1374389535 div 2 ^ 33 div 16 = x * 1374389535 div 2 ^ 37"
    by (simp add: div_mult2_eq [symmetric])
  also have "\<dots> = x div 100" using x by (rule reciprocal_100)
  finally show ?thesis using m by (simp add: spec_offset_def and_opcode_mask [OF x])
qed


lemma handlerOffset_eq: "opcode < 0xa8c \<Longrightarrow> unat (handlerOffset opcode) = 16 * (unat opcode div 100)"
proof -
  assume "opcode < 0xa8c"
  then have "unat opcode < 2700" by (simp add: word_less_nat_alt)
  then have "unat opcode < 2 ^ 15" by simp
  then show ?thesis by (simp add: handlerOffset_refines_spec spec_offset_eq)
qed

lemma handlerOffset_index: "opcode < 0xa8c \<Longrightarrow> 8 * (handlerOffset opcode div 8) = handlerOffset opcode"
proof -
  assume a: "opcode < 0xa8c"
  then have "unat opcode < 2700" by (simp add: word_less_nat_alt)
  then have k: "unat opcode div 100 \<le> 26" by simp
  have "unat (8 * (handlerOffset opcode div 8)) = unat (handlerOffset opcode)"
    using k by (simp add: unat_word_ariths unat_div handlerOffset_eq [OF a])
  then show ?thesis by (simp add: word_unat_eq_iff)
qed








section \<open>Resolution inside the table range\<close>

text \<open>
  C3. For every opcode below 0xa8c, \<open>FindHandler\<close> returns the routine address stored in
  the table at index \<open>offset / 8\<close> (that is, at byte offset \<open>offset\<close> from the table
  base), and rebinds the context pointer to the address of the original object's
  \<open>nextScript\<close> field plus the 8-byte value at \<open>tableBase + offset + 8\<close> shifted right
  arithmetically by one.
\<close>

theorem FindHandler_tabulated:
  assumes "opcode < 0xa8c"
  shows "FindHandler defaultHandler handlerTable nextScriptOffs m opcode thisPtr =
           (load64 m (handlerTable + 8 * (handlerOffset opcode div 8)),
            (thisPtr + nextScriptOffs)
              + signed_drop_bit 1 (load64 m (handlerTable + handlerOffset opcode + 8)))
         \<and> 8 * (handlerOffset opcode div 8) = handlerOffset opcode"
  using assms by (simp add: FindHandler_def GetAlternateThis_def Let_def handlerOffset_index not_le [symmetric])

theorem FindHandler_tabulated_witness:
  "(0x100 :: uint16) < 0xa8c \<and>
   FindHandler 0x7000 0x1000 8 example_table_memory 0x100 0x2000 = (0x44, 0x2007)"
  using FindHandler_tabulated [of "0x100" "0x7000" "0x1000" 8 example_table_memory "0x2000"]
  apply (simp add: handlerOffset_def load64_def example_table_memory_def)
  done

section \<open>Stepping a unit\<close>

lemma fetch_example: "fetch example_machine = (0x4e, example_machine\<lparr>script := example_unit\<lparr>currentPointer := 0x5002\<rparr>\<rparr>)"
  by (simp add: fetch_def Let_def example_machine_def example_stream_def example_unit_def load16_def)

lemma invert_bit: "(w :: uint16) AND 0x8000 \<noteq> 0 \<longleftrightarrow> bit w 15"
proof -
  have "(0x8000 :: uint16) = 2 ^ 15" by simp
  then show ?thesis by (simp only: and_exp_eq_0_iff_not_bit) simp
qed

lemma opcode_15_bits: "(w :: uint16) AND 0x7fff < 0x8000"
proof -
  have "w AND 0x7fff \<le> 0x7fff" by (rule word_and_le1)
  then show ?thesis by (simp add: word_le_nat_alt word_less_nat_alt)
qed

lemma load16_example_inverted: "load16 (mem example_inverted) (currentPointer (script example_inverted)) = 0x8012"
  by (simp add: example_defs load16_def)

lemma FindHandler_example: "FindHandler 0x7000 0x1000 0 example_stream 0x12 0x9000 = (0x40, 0x9008)"
  by (simp add: FindHandler_def GetAlternateThis_def handlerOffset_def load64_def example_stream_def)

text \<open>
  C6. Stepping a unit whose \<open>active\<close> flag is false returns 1 and changes nothing: the
  machine (unit, memory, free store) is returned as it was, and no call leaves the unit, so
  the buffer is not read and neither the override layer nor the resolver is asked.
\<close>

theorem inactive_step:
  assumes "\<not> active (script m)"
  shows "RunNextInstruction h this m = (1, m, [])"
  using assms by (simp add: RunNextInstruction_def)

theorem inactive_step_witness:
  "\<not> active (script (example_machine\<lparr>script := example_unit\<lparr>active := False\<rparr>\<rparr>)) \<and>
   RunNextInstruction plain_host 0x9000 (example_machine\<lparr>script := example_unit\<lparr>active := False\<rparr>\<rparr>)
     = (1, example_machine\<lparr>script := example_unit\<lparr>active := False\<rparr>\<rparr>, [])"
  using inactive_step [of "example_machine\<lparr>script := example_unit\<lparr>active := False\<rparr>\<rparr>" plain_host "0x9000"]
  by simp

text \<open>
  C7. Every step of an active unit reads the 16-bit mask at the cursor and then dispatches
  on \<open>mask AND 0x7fff\<close>, always below 0x8000, in a machine whose cursor is two bytes further
  and whose \<open>invertReturn\<close> is bit 15 of the mask. For the mask 0x8012 the opcode is 0x12
  and \<open>invertReturn\<close> is true.
\<close>

theorem step_fetch:
  assumes "active (script m)"
  shows "RunNextInstruction h this m =
           (case dispatch h this (load16 (mem m) (currentPointer (script m)) AND 0x7fff)
                   (m\<lparr>script := (script m)\<lparr>currentPointer := currentPointer (script m) + 2,
                       invertReturn := bit (load16 (mem m) (currentPointer (script m))) 15\<rparr>\<rparr>)
            of (r, m', evs) \<Rightarrow> (r, m', ReadOpcode (currentPointer (script m)) # evs))
         \<and> load16 (mem m) (currentPointer (script m)) AND 0x7fff < 0x8000
         \<and> (load16 (mem m) (currentPointer (script m)) = 0x8012 \<longrightarrow>
              fst (fetch m) = 0x12 \<and> invertReturn (script (snd (fetch m))))"
  using assms
  by (simp add: RunNextInstruction_def fetch_def Let_def invert_bit opcode_15_bits)


theorem step_fetch_witness:
  "active (script example_inverted) \<and>
   RunNextInstruction plain_host 0x9000 example_inverted =
     (0, example_inverted\<lparr>script := (script example_inverted)\<lparr>currentPointer := 0x5004, invertReturn := True\<rparr>\<rparr>,
      [ReadOpcode 0x5002, OverrideLookup 0x12, ResolverCall 0x12, HostCall 0x40 0x9008 0x12])"
proof -
  have a: "active (script example_inverted)" by (simp add: example_defs)
  have d: "dispatch plain_host 0x9000 0x12
             (example_inverted\<lparr>script := (script example_inverted)\<lparr>currentPointer := 0x5004, invertReturn := True\<rparr>\<rparr>)
           = (0, example_inverted\<lparr>script := (script example_inverted)\<lparr>currentPointer := 0x5004, invertReturn := True\<rparr>\<rparr>,
              [OverrideLookup 0x12, ResolverCall 0x12, HostCall 0x40 0x9008 0x12])"
    using FindHandler_example
    by (simp add: dispatch_def plain_host_def no_interceptor_def continue_routine_def
        example_inverted_def example_machine_def)
  have c: "currentPointer (script example_inverted) = 0x5002" by (simp add: example_defs)
  show ?thesis
    using step_fetch [OF a, of plain_host "0x9000"] a d
    by (simp add: load16_example_inverted [unfolded c] c)
qed

text \<open>
  C10, as stated, fails in one part: an interceptor may clear \<open>active\<close> itself. With
  such an interceptor registered for 0x4e the step returns 0 and \<open>active\<close> is false
  afterwards.
\<close>

theorem interceptor_clears_active_counterexample:
  "active (script example_machine)
   \<and> load16 (mem example_machine) (currentPointer (script example_machine)) AND 0x7fff = 0x4e
   \<and> Mobile_GetHandler clearing_host 0x4e = Some clear_active
   \<and> RunNextInstruction clearing_host 0x9000 example_machine =
        (0, example_machine\<lparr>script := example_unit\<lparr>currentPointer := 0x5002, active := False\<rparr>\<rparr>,
         [ReadOpcode 0x5000, OverrideLookup 0x4e, InterceptorCall 0x4e 0x9000])
   \<and> \<not> (fst (RunNextInstruction clearing_host 0x9000 example_machine) = 0
          \<and> active (script (fst (snd (RunNextInstruction clearing_host 0x9000 example_machine)))))"
  by (simp add: RunNextInstruction_def fetch_def dispatch_def Let_def load16_def example_defs
      clearing_host_def clearing_interceptor_def clear_active_def)

text \<open>
  C10, amended. The override layer comes before the terminate case. Whenever an interceptor
  is registered for the masked opcode of an active unit's next instruction, 0x4e included,
  the step calls it with the unit's own address and returns 0, and the machine after the
  step is exactly what the interceptor returns on the fetched unit: the terminate case is
  not taken. So \<open>active\<close> is still true after the step whenever the interceptor leaves
  the flag as it finds it.
\<close>

theorem interceptor_first:
  assumes "active (script m)"
    and "Mobile_GetHandler h (load16 (mem m) (currentPointer (script m)) AND 0x7fff) = Some f"
  shows "RunNextInstruction h this m =
           (0, f this (m\<lparr>script := (script m)\<lparr>currentPointer := currentPointer (script m) + 2,
                         invertReturn := bit (load16 (mem m) (currentPointer (script m))) 15\<rparr>\<rparr>),
            [ReadOpcode (currentPointer (script m)),
             OverrideLookup (load16 (mem m) (currentPointer (script m)) AND 0x7fff),
             InterceptorCall (load16 (mem m) (currentPointer (script m)) AND 0x7fff) this])
         \<and> ((\<forall>x. active (script (f this x)) = active (script x)) \<longrightarrow>
              active (script (fst (snd (RunNextInstruction h this m)))))"
  using assms
  by (simp add: RunNextInstruction_def fetch_def dispatch_def Let_def invert_bit)

theorem interceptor_first_witness:
  "active (script example_machine)
   \<and> Mobile_GetHandler intercepting_host
        (load16 (mem example_machine) (currentPointer (script example_machine)) AND 0x7fff)
        = Some keep_machine
   \<and> load16 (mem example_machine) (currentPointer (script example_machine)) AND 0x7fff = 0x4e
   \<and> (\<forall>x. active (script (keep_machine 0x9000 x)) = active (script x))
   \<and> RunNextInstruction intercepting_host 0x9000 example_machine =
        (0, example_machine\<lparr>script := example_unit\<lparr>currentPointer := 0x5002\<rparr>\<rparr>,
         [ReadOpcode 0x5000, OverrideLookup 0x4e, InterceptorCall 0x4e 0x9000])
   \<and> active (script (fst (snd (RunNextInstruction intercepting_host 0x9000 example_machine))))"
proof -
  have a: "active (script example_machine)" by (simp add: example_defs)
  have l: "load16 (mem example_machine) (currentPointer (script example_machine)) AND 0x7fff = 0x4e"
    by (simp add: example_defs load16_def)
  have b: "Mobile_GetHandler intercepting_host
        (load16 (mem example_machine) (currentPointer (script example_machine)) AND 0x7fff)
        = Some keep_machine"
    unfolding l by (simp add: example_defs)
  have k: "\<forall>x. active (script (keep_machine 0x9000 x)) = active (script x)"
    by (simp add: keep_machine_def)
  note t = interceptor_first [OF a b, of "0x9000"]
  have r: "RunNextInstruction intercepting_host 0x9000 example_machine =
        (0, example_machine\<lparr>script := example_unit\<lparr>currentPointer := 0x5002\<rparr>\<rparr>,
         [ReadOpcode 0x5000, OverrideLookup 0x4e, InterceptorCall 0x4e 0x9000])"
    using t by (simp add: l [simplified] keep_machine_def) (simp add: example_defs load16_def)
  have e: "active (script (fst (snd (RunNextInstruction intercepting_host 0x9000 example_machine))))"
    using t k by blast
  show ?thesis using a b l k r e by blast
qed

text \<open>
  C4, as stated, fails: with an interceptor registered for 0x4e the step of an active unit
  at opcode 0x4e returns 0, calls the interceptor and leaves \<open>active\<close> true.
\<close>

theorem terminate_intercepted_counterexample:
  "active (script example_machine)
   \<and> load16 (mem example_machine) (currentPointer (script example_machine)) AND 0x7fff = 0x4e
   \<and> RunNextInstruction intercepting_host 0x9000 example_machine =
        (0, example_machine\<lparr>script := example_unit\<lparr>currentPointer := 0x5002\<rparr>\<rparr>,
         [ReadOpcode 0x5000, OverrideLookup 0x4e, InterceptorCall 0x4e 0x9000])
   \<and> \<not> (fst (RunNextInstruction intercepting_host 0x9000 example_machine) = 1
          \<and> \<not> active (script (fst (snd (RunNextInstruction intercepting_host 0x9000 example_machine)))))"
  by (simp add: RunNextInstruction_def fetch_def dispatch_def Let_def load16_def example_defs)

text \<open>
  C4, amended. For every active unit whose next masked opcode is 0x4e, and with no
  interceptor registered for 0x4e, the step sets \<open>active\<close> to false and returns 1; the
  only calls are the read of the mask and the query of the override layer, so neither the
  resolver nor any handler is involved.
\<close>

theorem terminate_without_interceptor:
  assumes "active (script m)"
    and "load16 (mem m) (currentPointer (script m)) AND 0x7fff = 0x4e"
    and "Mobile_GetHandler h 0x4e = None"
  shows "RunNextInstruction h this m =
           (1,
            m\<lparr>script := (script m)\<lparr>currentPointer := currentPointer (script m) + 2,
                invertReturn := bit (load16 (mem m) (currentPointer (script m))) 15,
                active := False\<rparr>\<rparr>,
            [ReadOpcode (currentPointer (script m)), OverrideLookup 0x4e])"
  using assms
  by (simp add: RunNextInstruction_def fetch_def dispatch_def Let_def invert_bit)

theorem terminate_without_interceptor_witness:
  "active (script example_machine)
   \<and> load16 (mem example_machine) (currentPointer (script example_machine)) AND 0x7fff = 0x4e
   \<and> Mobile_GetHandler plain_host 0x4e = None
   \<and> RunNextInstruction plain_host 0x9000 example_machine =
        (1, example_machine\<lparr>script := example_unit\<lparr>currentPointer := 0x5002, active := False\<rparr>\<rparr>,
         [ReadOpcode 0x5000, OverrideLookup 0x4e])"
proof -
  have a: "active (script example_machine)" by (simp add: example_defs)
  have b: "load16 (mem example_machine) (currentPointer (script example_machine)) AND 0x7fff = 0x4e"
    by (simp add: example_defs load16_def)
  have c: "Mobile_GetHandler plain_host 0x4e = None" by (simp add: example_defs)
  have l: "load16 (mem example_machine) (currentPointer (script example_machine)) = 0x4e"
    by (simp add: example_defs load16_def)
  show ?thesis
    using terminate_without_interceptor [OF a b c, of "0x9000"] a b c
    by (simp add: l) (simp add: example_defs)
qed

section \<open>Release and transfer\<close>

lemma Unload_again:
  assumes "Unload m = Inr (m1, evs)"
  shows "Unload m1 = Inr (m1, [])"
  using assms
  by (auto simp add: Unload_def delete_array_def split: if_splits)

text \<open>
  C8. The first \<open>Unload\<close> of a unit that owns a live buffer releases exactly the
  allocation at \<open>startPointer\<close>, wherever the cursor is, and nulls \<open>startPointer\<close>. A
  second \<open>Unload\<close>, and the destructor's, then release nothing and return the machine
  unchanged, without a fault.
\<close>

theorem Unload_once:
  assumes "startPointer (script m) \<noteq> 0" and "startPointer (script m) \<in> heap m"
  shows "Unload m =
           Inr (m\<lparr>heap := heap m - {startPointer (script m)},
                  script := (script m)\<lparr>startPointer := 0\<rparr>\<rparr>,
                [DeleteArray (startPointer (script m))])
         \<and> Unload (m\<lparr>heap := heap m - {startPointer (script m)},
                     script := (script m)\<lparr>startPointer := 0\<rparr>\<rparr>) =
           Inr (m\<lparr>heap := heap m - {startPointer (script m)},
                  script := (script m)\<lparr>startPointer := 0\<rparr>\<rparr>, [])
         \<and> Script_dtor (m\<lparr>heap := heap m - {startPointer (script m)},
                     script := (script m)\<lparr>startPointer := 0\<rparr>\<rparr>) =
           Inr (m\<lparr>heap := heap m - {startPointer (script m)},
                  script := (script m)\<lparr>startPointer := 0\<rparr>\<rparr>, [])"
  using assms
  by (simp add: Unload_def Script_dtor_def delete_array_def)

theorem Unload_once_witness:
  "startPointer (script example_inverted) \<noteq> 0
   \<and> startPointer (script example_inverted) \<in> heap example_inverted
   \<and> currentPointer (script example_inverted) \<noteq> startPointer (script example_inverted)
   \<and> Unload example_inverted =
        Inr (example_inverted\<lparr>heap := {}, script := (script example_inverted)\<lparr>startPointer := 0\<rparr>\<rparr>,
             [DeleteArray 0x5000])
   \<and> Unload (example_inverted\<lparr>heap := {}, script := (script example_inverted)\<lparr>startPointer := 0\<rparr>\<rparr>) =
        Inr (example_inverted\<lparr>heap := {}, script := (script example_inverted)\<lparr>startPointer := 0\<rparr>\<rparr>, [])"
proof -
  have s: "startPointer (script example_inverted) = 0x5000"
    and c: "currentPointer (script example_inverted) = 0x5002"
    and h: "heap example_inverted = {0x5000}"
    by (simp_all add: example_defs)
  have a: "startPointer (script example_inverted) \<noteq> 0" by (simp add: s)
  have b: "startPointer (script example_inverted) \<in> heap example_inverted" by (simp add: s h)
  show ?thesis using Unload_once [OF a b] by (simp add: s c h)
qed

text \<open>
  C9. Move transfer gives the new unit every field of the source and leaves the source with
  every field zero: null pointers, empty name, zero activation time, both flags false.
  Destroying that source releases nothing and changes nothing, whatever the free store
  holds.
\<close>

theorem move_zeroes_source:
  "fst (Script_move source) = source
   \<and> snd (Script_move source) = zeroed
   \<and> nextScript (snd (Script_move source)) = 0
   \<and> name (snd (Script_move source)) = []
   \<and> startPointer (snd (Script_move source)) = 0
   \<and> currentPointer (snd (Script_move source)) = 0
   \<and> activationTime (snd (Script_move source)) = 0
   \<and> \<not> active (snd (Script_move source))
   \<and> \<not> invertReturn (snd (Script_move source))
   \<and> Script_dtor (m\<lparr>script := snd (Script_move source)\<rparr>) =
        Inr (m\<lparr>script := snd (Script_move source)\<rparr>, [])"
  by (simp add: Script_move_def zeroed_def Script_dtor_def Unload_def delete_array_def)

section \<open>Loading\<close>

lemma Script_ctor_null_stream:
  assumes "fopen_rb rt path = None"
  shows "Script_ctor rt path m =
           Inl (NullStream,
                m\<lparr>script := (script m)\<lparr>activationTime := 0\<rparr>,
                  heap := insert (new_array rt (heap m) (st_size rt path)) (heap m)\<rparr>,
                [Log (''Loading '' @ path),
                 LogError (''Failed to load script '' @ path @ '' (unable to open file)''),
                 NewArray (st_size rt path) (new_array rt (heap m) (st_size rt path))])"
  using assms by (simp add: Script_ctor_def Let_def)

lemma Script_ctor_loaded:
  assumes "fopen_rb rt path = Some bytes"
  shows "\<exists>m'. Script_ctor rt path m =
                 Inr (m', [Log (''Loading '' @ path),
                           NewArray (st_size rt path) (new_array rt (heap m) (st_size rt path))])
             \<and> startPointer (script m') = new_array rt (heap m) (st_size rt path)
             \<and> currentPointer (script m') = startPointer (script m')
             \<and> startPointer (script m') \<in> heap m'
             \<and> activationTime (script m') = 0
             \<and> name (script m') = ''magic'' @ to_string (unat (loadNumber m))
             \<and> loadNumber m' = loadNumber m + 1"
  using assms by (simp add: Script_ctor_def Let_def)

lemma load_then_step:
  "\<exists>m'. Script_ctor example_runtime ''good.csi'' (blank_machine\<lparr>script := zeroed\<lparr>active := True\<rparr>\<rparr>)
           = Inr (m', [Log ''Loading good.csi'', NewArray 6 0x6000])
        \<and> name (script m') = ''magic0''
        \<and> fst (RunNextInstruction plain_host 0x9000 m') = 1
        \<and> \<not> active (script (fst (snd (RunNextInstruction plain_host 0x9000 m'))))"
  by (simp add: Script_ctor_def Let_def example_runtime_def example_size_def example_open_def
      example_new_def blank_machine_def zeroed_def to_string.simps
      RunNextInstruction_def fetch_def dispatch_def load16_def plain_host_def no_interceptor_def)

text \<open>
  C5. When the file does not open, the constructor logs the failure but does not return:
  it allocates a buffer of the stat size and passes the null stream to \<open>fread\<close>. The
  run below, on a path that has a size but does not open, ends in that fault with the new
  allocation live.
\<close>

theorem load_failure_not_handled:
  "fopen_rb example_runtime ''locked.csi'' = None
   \<and> Script_ctor example_runtime ''locked.csi'' blank_machine =
       Inl (NullStream, blank_machine\<lparr>heap := {0x6000}\<rparr>,
            [Log ''Loading locked.csi'',
             LogError ''Failed to load script locked.csi (unable to open file)'',
             NewArray 6 0x6000])"
  by (simp add: Script_ctor_def Let_def example_runtime_def example_size_def example_open_def
      example_new_def blank_machine_def zeroed_def)

end
